theory Spec2Isabelle
  imports Main "HOL-Library.Mapping" "HOL-Library.AList_Mapping"
begin

section \<open>Strings and formatting used by api/path_configstate.go\<close>

text \<open>
  Go strings are byte sequences; they are modelled as \<open>string\<close> (a list of 8-bit
  characters). The three library functions \<open>makeServiceName\<close> calls are written out.
  Every separator the source passes is the one-byte string "/", so the separator of
  \<open>SplitN\<close> and the pattern of \<open>Replace\<close> are a single character.
\<close>

text \<open>
  \<open>strings.SplitN(s, sep, n)\<close> for \<open>n \<ge> 0\<close>: no piece for \<open>n = 0\<close>; otherwise at most
  \<open>n\<close> pieces, cut at the first \<open>n - 1\<close> separators, the last piece being the unsplit
  remainder.
\<close>

fun SplitN :: "string \<Rightarrow> char \<Rightarrow> nat \<Rightarrow> string list" where
  "SplitN s sep 0 = []"
| "SplitN s sep (Suc 0) = [s]"
| "SplitN s sep (Suc (Suc n)) =
     (if sep \<in> set s
      then takeWhile (\<lambda>c. c \<noteq> sep) s # SplitN (tl (dropWhile (\<lambda>c. c \<noteq> sep) s)) sep (Suc n)
      else [s])"

text \<open>\<open>strings.TrimSuffix(s, suffix)\<close>: \<open>s\<close> without the trailing \<open>suffix\<close>, once, if it ends with it.\<close>

definition TrimSuffix :: "string \<Rightarrow> string \<Rightarrow> string" where
  "TrimSuffix s suffix =
     (if length suffix \<le> length s \<and> drop (length s - length suffix) s = suffix
      then take (length s - length suffix) s
      else s)"

text \<open>\<open>strings.Replace(s, old, new, -1)\<close> with a one-byte \<open>old\<close>: every occurrence is replaced.\<close>

definition Replace :: "string \<Rightarrow> char \<Rightarrow> string \<Rightarrow> string" where
  "Replace s old new = concat (map (\<lambda>c. if c = old then new else [c]) s)"

text \<open>
  \<open>fmt.Sprintf\<close> restricted to the verbs the source uses, \<open>%v\<close> and \<open>%T\<close>. The
  arguments arrive already rendered as strings (a Go string renders as itself under
  \<open>%v\<close>); a verb with no argument left prints Go's \<open>%!v(MISSING)\<close>.
\<close>

fun Sprintf :: "string \<Rightarrow> string list \<Rightarrow> string" where
  "Sprintf [] args = []"
| "Sprintf [c] args = [c]"
| "Sprintf (c # d # fmt) args =
     (if c = CHR ''%'' \<and> (d = CHR ''v'' \<or> d = CHR ''T'')
      then (case args of
              [] \<Rightarrow> [CHR ''%'', CHR ''!'', d] @ ''(MISSING)'' @ Sprintf fmt []
            | a # rest \<Rightarrow> a @ Sprintf fmt rest)
      else c # Sprintf (d # fmt) args)"

text \<open>Decimal rendering of a length, as \<open>%v\<close> prints an \<open>int\<close> that is not negative.\<close>

fun string_of_nat :: "nat \<Rightarrow> string" where
  "string_of_nat n =
     (if n < 10 then [char_of (48 + n)]
      else string_of_nat (n div 10) @ [char_of (48 + n mod 10)])"

declare string_of_nat.simps [simp del]

section \<open>State validator\<close>

definition CONFIGSTATE_CONFIGURING :: string where
  "CONFIGSTATE_CONFIGURING = ''configuring''"

definition CONFIGSTATE_CONFIGURED :: string where
  "CONFIGSTATE_CONFIGURED = ''configured''"

definition NoOpStateChange :: "string \<Rightarrow> string \<Rightarrow> bool" where
  "NoOpStateChange from to = (if from = to then True else False)"

definition ValidStateChange :: "string \<Rightarrow> string \<Rightarrow> bool" where
  "ValidStateChange from to =
     (if from = CONFIGSTATE_CONFIGURING \<and> to = CONFIGSTATE_CONFIGURED then True else False)"

section \<open>Service names\<close>

definition makeServiceName :: "string \<Rightarrow> string \<Rightarrow> string \<Rightarrow> string" where
  "makeServiceName msURL msOrg msVersion =
     (let url0 = '''';
          pieces = SplitN msURL (CHR ''/'') 3;
          url = (if length pieces \<ge> 3
                 then Replace (TrimSuffix (pieces ! 2) ''/'') (CHR ''/'') ''-''
                 else url0)
      in Sprintf ''%v_%v_%v'' [url, msOrg, msVersion])"

section \<open>Data model\<close>

text \<open>
  The Go \<open>error\<close> interface: \<open>None\<close> is the nil interface value, \<open>Some e\<close> a value whose
  dynamic type is one of the pointer types the type switch of \<open>UpdateConfigstate\<close>
  tells apart, or any other error type. Each carries its message.
\<close>

datatype go_error =
    MSMissingVariableConfigError (Err: string)
  | DuplicateServiceError (Err: string)
  | OtherError (Err: string)

text \<open>
  The single-valued type assertion \<open>x.(*MSMissingVariableConfigError)\<close>: it yields the
  pointer when the dynamic type of \<open>x\<close> is that type and panics otherwise, also on the
  nil interface value. \<open>None\<close> is the panic.
\<close>

fun assert_MSMissingVariableConfigError :: "go_error option \<Rightarrow> go_error option" where
  "assert_MSMissingVariableConfigError (Some (MSMissingVariableConfigError m)) =
     Some (MSMissingVariableConfigError m)"
| "assert_MSMissingVariableConfigError _ = None"

text \<open>The faults handed to the error handler, by constructor (api package).\<close>

datatype api_error =
    NewSystemError string
  | NewNotFoundError string
  | NewAPIUserInputError string string

text \<open>\<open>api.Configstate\<close>: the state is a \<open>*string\<close>, so it can be nil.\<close>

record api_Configstate =
  State :: "string option"

text \<open>\<open>persistence.Configstate\<close> and \<open>persistence.ExchangeDevice\<close>, the fields this file reads.\<close>

record persistence_Configstate =
  State_p :: string

record ExchangeDevice =
  Id_p :: string
  Org :: string
  Pattern :: string
  Token :: string
  Config_p :: persistence_Configstate

text \<open>\<open>api.HorizonDevice\<close>: only its \<open>Config\<close> pointer is read here.\<close>

record HorizonDevice =
  Config :: "api_Configstate option"

text \<open>
  Modelled from the spec: \<open>ConvertFromPersistentHorizonDevice\<close> is not in this file.
  The view it builds carries the stored record's configuration state (the view of the
  device's current state that the workflow returns).
\<close>

definition ConvertFromPersistentHorizonDevice :: "ExchangeDevice \<Rightarrow> HorizonDevice" where
  "ConvertFromPersistentHorizonDevice pDevice =
     \<lparr>Config = Some \<lparr>State = Some (State_p (Config_p pDevice))\<rparr>\<rparr>"

text \<open>\<open>exchange.Pattern\<close> with its workload references and their version choices.\<close>

record WorkloadChoice =
  Version_c :: string

record WorkloadReference =
  WorkloadURL :: string
  WorkloadOrg :: string
  WorkloadArch :: string
  WorkloadVersions :: "WorkloadChoice list"

record exchange_Pattern =
  Workloads :: "WorkloadReference list"

text \<open>\<open>policy.APISpecification\<close> and \<open>policy.APISpecList\<close>.\<close>

record APISpecification =
  SpecRef :: string
  Org_a :: string
  Version :: string
  ExclusiveAccess :: bool
  Arch :: string

type_synonym APISpecList = "APISpecification list"

text \<open>
  Modelled from the spec: \<open>NewService\<close> is not in this file. A service request is made
  from (reference, organization, derived name, version), in the order of the call.
\<close>

record Service =
  Url_s :: string
  Org_s :: string
  Name_s :: string
  VersionRange_s :: string

definition NewService :: "string \<Rightarrow> string \<Rightarrow> string \<Rightarrow> string \<Rightarrow> Service" where
  "NewService url org name v = \<lparr>Url_s = url, Org_s = org, Name_s = name, VersionRange_s = v\<rparr>"

section \<open>Collaborators and effects\<close>

text \<open>
  Every call that leaves \<open>UpdateConfigstate\<close> towards a collaborator is recorded, in
  order, so that "no call was made" is a statement about the record.
\<close>

datatype event =
    CalledFindExchangeDevice
  | CalledErrorhandler api_error
  | CalledGetPatterns string string string string
  | CalledResolveWorkload string string string string string string
  | CalledCreateService Service
  | CalledSetConfigstate string string

text \<open>The local database handle and the calls made so far.\<close>

record 'db world =
  db :: 'db
  calls :: "event list"

definition record_call :: "event \<Rightarrow> 'db world \<Rightarrow> 'db world" where
  "record_call e w = w\<lparr>calls := calls w @ [e]\<rparr>"

text \<open>
  The handlers passed to \<open>UpdateConfigstate\<close> (\<open>errorhandler\<close>, \<open>getPatterns\<close>,
  \<open>resolveWorkload\<close>) and the functions of other packages it calls, whose bodies are
  not in this file, are parameters. A Go pair \<open>(value, error)\<close> is a pair here.
  \<^item> \<open>FindExchangeDevice\<close> reads the database; \<open>SetConfigstate\<close> (receiver first)
    and \<open>CreateService\<close> may change it, so they return the new one.
  \<^item> \<open>CreateService\<close> is called with the pass-through handler made by
    \<open>GetPassThroughErrorHandler(&createServiceError)\<close>: it can overwrite that
    variable. It therefore takes the variable's value and returns, with its three
    results, the variable's value after the call.
  \<^item> \<open>ReplaceHigherSharedSingleton\<close> changes its receiver in place: the parameter
    gives the receiver's contents after the call. \<open>MergeWith\<close> returns the merged list.
  \<^item> \<open>ArchString\<close> is \<open>cutil.ArchString()\<close>; \<open>GetId\<close> is the device's method.
  \<^item> \<open>fmt_v_error\<close>, \<open>fmt_T_error\<close> and \<open>fmt_v_patterns\<close> render an error under
    \<open>%v\<close> and \<open>%T\<close> and the pattern map under \<open>%v\<close>.
\<close>

record ('db, 'msg) handlers =
  errorhandler :: "api_error \<Rightarrow> bool"
  getPatterns :: "string \<Rightarrow> string \<Rightarrow> string \<Rightarrow> string \<Rightarrow>
                  (string, exchange_Pattern) mapping \<times> go_error option"
  resolveWorkload :: "string \<Rightarrow> string \<Rightarrow> string \<Rightarrow> string \<Rightarrow> string \<Rightarrow> string \<Rightarrow>
                      APISpecList \<times> go_error option"
  FindExchangeDevice :: "'db \<Rightarrow> ExchangeDevice option \<times> go_error option"
  SetConfigstate :: "ExchangeDevice \<Rightarrow> 'db \<Rightarrow> string \<Rightarrow> string \<Rightarrow>
                     (ExchangeDevice option \<times> go_error option) \<times> 'db"
  CreateService :: "Service \<Rightarrow> go_error option \<Rightarrow> 'db \<Rightarrow>
                    (bool \<times> Service option \<times> 'msg) \<times> go_error option \<times> 'db"
  ReplaceHigherSharedSingleton :: "APISpecList \<Rightarrow> APISpecList \<Rightarrow> APISpecList"
  MergeWith :: "APISpecList \<Rightarrow> APISpecList \<Rightarrow> APISpecList"
  ArchString :: string
  GetId :: "ExchangeDevice \<Rightarrow> string"
  fmt_v_error :: "go_error option \<Rightarrow> string"
  fmt_T_error :: "go_error option \<Rightarrow> string"
  fmt_v_patterns :: "(string, exchange_Pattern) mapping \<Rightarrow> string"

text \<open>A Go call either returns its results or panics.\<close>

datatype 'a go_result = Return 'a | Panic

type_synonym ('db, 'msg) update_result =
  "(bool \<times> api_Configstate option \<times> 'msg list) go_result \<times> 'db world"

text \<open>
  \<open>return errorhandler(e), nil, nil\<close>: the handler is called with the fault and its
  answer is returned with a nil state and a nil notification list.
\<close>

definition fault :: "('db, 'msg) handlers \<Rightarrow> api_error \<Rightarrow> 'db world \<Rightarrow> ('db, 'msg) update_result" where
  "fault env e w = (Return (errorhandler env e, None, []), record_call (CalledErrorhandler e) w)"

section \<open>FindConfigstateForOutput\<close>

definition FindConfigstateForOutput ::
  "('db, 'msg) handlers \<Rightarrow> 'db world \<Rightarrow> (api_Configstate option \<times> string option) \<times> 'db world" where
  "FindConfigstateForOutput env w0 =
     (let (pDevice, err) = FindExchangeDevice env (db w0);
          w = record_call CalledFindExchangeDevice w0
      in if err \<noteq> None
         then ((None, Some (Sprintf ''unable to read horizondevice object, error %v''
                              [fmt_v_error env err])), w)
         else case pDevice of
                None \<Rightarrow>
                  (let state = CONFIGSTATE_CONFIGURING;
                       cfg = \<lparr>State = Some state\<rparr>
                   in ((Some cfg, None), w))
              | Some pDevice \<Rightarrow>
                  (let device = ConvertFromPersistentHorizonDevice pDevice
                   in ((Config device, None), w)))"

section \<open>UpdateConfigstate\<close>

text \<open>
  The loop over the version choices of one workload (the inner \<open>for\<close> of the pattern
  resolution). \<open>Inl\<close> is a \<open>return\<close> out of \<open>UpdateConfigstate\<close>; \<open>Inr\<close> is the
  complete list and the world when the loop ends.
\<close>

fun resolve_versions ::
  "('db, 'msg) handlers \<Rightarrow> ExchangeDevice \<Rightarrow> string \<Rightarrow> WorkloadReference \<Rightarrow>
   WorkloadChoice list \<Rightarrow> APISpecList \<Rightarrow> 'db world \<Rightarrow>
   ('db, 'msg) update_result + (APISpecList \<times> 'db world)" where
  "resolve_versions env pDevice thisArch workload [] completeAPISpecList w =
     Inr (completeAPISpecList, w)"
| "resolve_versions env pDevice thisArch workload (workloadChoice # rest) completeAPISpecList w0 =
     (let (apiSpecList, err) =
            resolveWorkload env (WorkloadURL workload) (WorkloadOrg workload)
              (Version_c workloadChoice) thisArch (GetId env pDevice) (Token pDevice);
          w = record_call
                (CalledResolveWorkload (WorkloadURL workload) (WorkloadOrg workload)
                   (Version_c workloadChoice) thisArch (GetId env pDevice) (Token pDevice)) w0
      in if err \<noteq> None
         then Inl (fault env
                (NewSystemError
                   (Sprintf ''Error resolving workload %v %v %v %v, error %v''
                      [WorkloadURL workload, WorkloadOrg workload, Version_c workloadChoice,
                       thisArch, fmt_v_error env err])) w)
         else
           (let replaced = ReplaceHigherSharedSingleton env completeAPISpecList apiSpecList;
                merged = MergeWith env replaced apiSpecList
            in resolve_versions env pDevice thisArch workload rest merged w))"

text \<open>The loop over the workloads of the pattern (the outer \<open>for\<close>).\<close>

fun resolve_workloads ::
  "('db, 'msg) handlers \<Rightarrow> ExchangeDevice \<Rightarrow> string \<Rightarrow> WorkloadReference list \<Rightarrow>
   APISpecList \<Rightarrow> 'db world \<Rightarrow>
   ('db, 'msg) update_result + (APISpecList \<times> 'db world)" where
  "resolve_workloads env pDevice thisArch [] completeAPISpecList w =
     Inr (completeAPISpecList, w)"
| "resolve_workloads env pDevice thisArch (workload # rest) completeAPISpecList w =
     (if WorkloadArch workload \<noteq> thisArch
      then resolve_workloads env pDevice thisArch rest completeAPISpecList w
      else
        (case resolve_versions env pDevice thisArch workload (WorkloadVersions workload)
                completeAPISpecList w of
           Inl r \<Rightarrow> Inl r
         | Inr (completeAPISpecList', w') \<Rightarrow>
             resolve_workloads env pDevice thisArch rest completeAPISpecList' w'))"

text \<open>
  The loop that creates a service for each resolved API spec. \<open>err\<close> is the variable
  of that name in scope at the loop: the one declared with the pattern by the call of
  \<open>getPatterns\<close>. \<open>createServiceError\<close> is declared before the loop and written by the
  pass-through handler only, so it is carried from one iteration to the next.
\<close>

fun create_services ::
  "('db, 'msg) handlers \<Rightarrow> go_error option \<Rightarrow> APISpecList \<Rightarrow> go_error option \<Rightarrow>
   'msg list \<Rightarrow> 'db world \<Rightarrow> ('db, 'msg) update_result + ('msg list \<times> 'db world)" where
  "create_services env err [] createServiceError msgs w = Inr (msgs, w)"
| "create_services env err (apiSpec # rest) createServiceError0 msgs w0 =
     (let service = NewService (SpecRef apiSpec) (Org_a apiSpec)
                      (makeServiceName (SpecRef apiSpec) (Org_a apiSpec) (Version apiSpec))
                      (Version apiSpec);
          ((errHandled, newService, msg), createServiceError, db') =
             CreateService env service createServiceError0 (db w0);
          w = record_call (CalledCreateService service) (w0\<lparr>db := db'\<rparr>)
      in if errHandled
         then
           (case createServiceError of
              Some (MSMissingVariableConfigError _) \<Rightarrow>
                (case assert_MSMissingVariableConfigError err of
                   None \<Rightarrow> Inl (Panic, w)
                 | Some msErr \<Rightarrow>
                     Inl (fault env
                       (NewAPIUserInputError
                          (Sprintf ''Configstate autoconfig, microservice %v %v %v, %v''
                             [SpecRef apiSpec, Org_a apiSpec, Version apiSpec, Err msErr])
                          ''configstate.state'') w))
            | Some (DuplicateServiceError _) \<Rightarrow>
                create_services env err rest createServiceError msgs w
            | _ \<Rightarrow>
                Inl (fault env
                  (NewSystemError
                     (Sprintf ''unexpected error returned from service create (%T) %v''
                        [fmt_T_error env createServiceError, fmt_v_error env createServiceError])) w))
         else create_services env err rest createServiceError (msgs @ [msg]) w)"

text \<open>
  The block run when the device has a pattern: fetch the pattern, resolve its
  workloads, create the services.
\<close>

definition autoconfig ::
  "('db, 'msg) handlers \<Rightarrow> ExchangeDevice \<Rightarrow> 'msg list \<Rightarrow> 'db world \<Rightarrow>
   ('db, 'msg) update_result + ('msg list \<times> 'db world)" where
  "autoconfig env pDevice msgs w0 =
     (let (pattern, err) =
            getPatterns env (Org pDevice) (Pattern pDevice) (GetId env pDevice) (Token pDevice);
          w = record_call
                (CalledGetPatterns (Org pDevice) (Pattern pDevice) (GetId env pDevice)
                   (Token pDevice)) w0
      in if err \<noteq> None
         then Inl (fault env
                (NewSystemError
                   (Sprintf ''Unable to read pattern object %v from exchange, error %v''
                      [Pattern pDevice, fmt_v_error env err])) w)
         else if Mapping.size pattern \<noteq> 1
         then Inl (fault env
                (NewSystemError
                   (Sprintf ''Expected only 1 pattern from exchange, received %v''
                      [string_of_nat (Mapping.size pattern)])) w)
         else
           (let patId = Sprintf ''%v/%v'' [Org pDevice, Pattern pDevice]
            in case Mapping.lookup pattern patId of
                 None \<Rightarrow>
                   Inl (fault env
                     (NewSystemError
                        (Sprintf ''Expected pattern id not found in GET pattern response: %v''
                           [fmt_v_patterns env pattern])) w)
               | Some patternDef \<Rightarrow>
                   (let thisArch = ArchString env
                    in case resolve_workloads env pDevice thisArch (Workloads patternDef) [] w of
                         Inl r \<Rightarrow> Inl r
                       | Inr (completeAPISpecList, w') \<Rightarrow>
                           create_services env err completeAPISpecList None msgs w')))"

text \<open>The last step: the state is written to the database and the view returned.\<close>

definition persist_state ::
  "('db, 'msg) handlers \<Rightarrow> ExchangeDevice \<Rightarrow> string \<Rightarrow> 'msg list \<Rightarrow> 'db world \<Rightarrow>
   ('db, 'msg) update_result" where
  "persist_state env pDevice cfg_State msgs w0 =
     (let ((updatedDev, err), db') = SetConfigstate env pDevice (db w0) (Id_p pDevice) cfg_State;
          w = record_call (CalledSetConfigstate (Id_p pDevice) cfg_State) (w0\<lparr>db := db'\<rparr>)
      in if err \<noteq> None
         then fault env
                (NewSystemError
                   (Sprintf ''error persisting new config state: %v'' [fmt_v_error env err])) w
         else case updatedDev of
                None \<Rightarrow> (Panic, w)
              | Some updatedDev \<Rightarrow>
                  (let exDev = ConvertFromPersistentHorizonDevice updatedDev
                   in (Return (False, Config exDev, msgs), w)))"

text \<open>
  \<open>UpdateConfigstate\<close>. The request's state is read through its pointer
  (\<open>*cfg.State\<close>) once the device has been found: a nil pointer panics there.
\<close>

definition UpdateConfigstate ::
  "('db, 'msg) handlers \<Rightarrow> api_Configstate \<Rightarrow> 'db world \<Rightarrow> ('db, 'msg) update_result" where
  "UpdateConfigstate env cfg w0 =
     (let (pDevice, err) = FindExchangeDevice env (db w0);
          w = record_call CalledFindExchangeDevice w0
      in if err \<noteq> None
         then fault env
                (NewSystemError
                   (Sprintf ''Unable to read horizondevice object, error %v''
                      [fmt_v_error env err])) w
         else case pDevice of
           None \<Rightarrow>
             fault env
               (NewNotFoundError
                  ''Exchange registration not recorded. Complete account and device registration with an exchange and then record device registration using this API's /horizondevice path.'') w
         | Some pDevice \<Rightarrow>
             (let msgs = []
              in case State cfg of
                None \<Rightarrow> (Panic, w)
              | Some cfg_State \<Rightarrow>
                  if cfg_State \<noteq> CONFIGSTATE_CONFIGURING \<and> cfg_State \<noteq> CONFIGSTATE_CONFIGURED
                  then fault env
                         (NewAPIUserInputError
                            (Sprintf ''Supported state values are '%v' and '%v'.''
                               [CONFIGSTATE_CONFIGURING, CONFIGSTATE_CONFIGURED])
                            ''configstate.state'') w
                  else if NoOpStateChange (State_p (Config_p pDevice)) cfg_State
                  then (let exDev = ConvertFromPersistentHorizonDevice pDevice
                        in (Return (False, Config exDev, []), w))
                  else if \<not> ValidStateChange (State_p (Config_p pDevice)) cfg_State
                  then fault env
                         (NewAPIUserInputError
                            (Sprintf ''Transition from '%v' to '%v' is not supported.''
                               [State_p (Config_p pDevice), cfg_State])
                            ''configstate.state'') w
                  else
                    (case (if Pattern pDevice \<noteq> ''''
                           then autoconfig env pDevice msgs w
                           else Inr (msgs, w)) of
                       Inl r \<Rightarrow> r
                     | Inr (msgs', w') \<Rightarrow> persist_state env pDevice cfg_State msgs' w')))"

section \<open>Descriptions used to state the properties\<close>

text \<open>The service request the creation loop builds for an API spec.\<close>

definition service_for :: "APISpecification \<Rightarrow> Service" where
  "service_for apiSpec =
     NewService (SpecRef apiSpec) (Org_a apiSpec)
       (makeServiceName (SpecRef apiSpec) (Org_a apiSpec) (Version apiSpec)) (Version apiSpec)"

text \<open>
  What the provisioning collaborator answers when it is asked for each API spec of a
  list in turn, starting from a value of \<open>createServiceError\<close> and a database: one
  answer per API spec, in the order of the list.
\<close>

type_synonym ('db, 'msg) create_outcome =
  "(bool \<times> Service option \<times> 'msg) \<times> go_error option \<times> 'db"

fun create_outcomes ::
  "('db, 'msg) handlers \<Rightarrow> APISpecList \<Rightarrow> go_error option \<Rightarrow> 'db \<Rightarrow>
   ('db, 'msg) create_outcome list" where
  "create_outcomes env [] cse d = []"
| "create_outcomes env (apiSpec # rest) cse d =
     (let out = CreateService env (service_for apiSpec) cse d
      in out # create_outcomes env rest (fst (snd out)) (snd (snd out)))"

definition created :: "('db, 'msg) create_outcome \<Rightarrow> bool" where
  "created out = (\<not> fst (fst out))"

definition already_present :: "('db, 'msg) create_outcome \<Rightarrow> bool" where
  "already_present out =
     (fst (fst out) \<and>
      (case fst (snd out) of Some (DuplicateServiceError _) \<Rightarrow> True | _ \<Rightarrow> False))"

definition needs_manual_config :: "('db, 'msg) create_outcome \<Rightarrow> bool" where
  "needs_manual_config out =
     (fst (fst out) \<and>
      (case fst (snd out) of Some (MSMissingVariableConfigError _) \<Rightarrow> True | _ \<Rightarrow> False))"

definition notification :: "('db, 'msg) create_outcome \<Rightarrow> 'msg" where
  "notification out = snd (snd (fst out))"

text \<open>The database and \<open>createServiceError\<close> after a run of answers.\<close>

definition db_after :: "'db \<Rightarrow> ('db, 'msg) create_outcome list \<Rightarrow> 'db" where
  "db_after d outs = (if outs = [] then d else snd (snd (last outs)))"

definition error_after :: "go_error option \<Rightarrow> ('db, 'msg) create_outcome list \<Rightarrow> go_error option" where
  "error_after cse outs = (if outs = [] then cse else fst (snd (last outs)))"

text \<open>
  The accumulation step as the specification words it: singleton replacement of the
  running total against the sub-list, then the merge of the sub-list into the result.
\<close>

definition accumulate :: "('db, 'msg) handlers \<Rightarrow> APISpecList \<Rightarrow> APISpecList \<Rightarrow> APISpecList" where
  "accumulate env running sub = MergeWith env (ReplaceHigherSharedSingleton env running sub) sub"

text \<open>
  The (workload, version choice) pairs of the workloads of the node's architecture, in
  declaration order, the sub-list the resolver answers for a pair, and the call made.
\<close>

definition version_requests ::
  "string \<Rightarrow> WorkloadReference list \<Rightarrow> (WorkloadReference \<times> WorkloadChoice) list" where
  "version_requests thisArch workloads =
     concat (map (\<lambda>workload. map (\<lambda>choice. (workload, choice)) (WorkloadVersions workload))
               (filter (\<lambda>workload. WorkloadArch workload = thisArch) workloads))"

definition resolved ::
  "('db, 'msg) handlers \<Rightarrow> ExchangeDevice \<Rightarrow> string \<Rightarrow> WorkloadReference \<times> WorkloadChoice \<Rightarrow>
   APISpecList \<times> go_error option" where
  "resolved env pDevice thisArch request =
     resolveWorkload env (WorkloadURL (fst request)) (WorkloadOrg (fst request))
       (Version_c (snd request)) thisArch (GetId env pDevice) (Token pDevice)"

definition resolve_call ::
  "('db, 'msg) handlers \<Rightarrow> ExchangeDevice \<Rightarrow> string \<Rightarrow> WorkloadReference \<times> WorkloadChoice \<Rightarrow> event" where
  "resolve_call env pDevice thisArch request =
     CalledResolveWorkload (WorkloadURL (fst request)) (WorkloadOrg (fst request))
       (Version_c (snd request)) thisArch (GetId env pDevice) (Token pDevice)"

text \<open>
  The service name as the specification words it reads the URL: its last path
  segment, the part after the last slash.
\<close>

definition last_path_segment :: "string \<Rightarrow> string" where
  "last_path_segment url = rev (takeWhile (\<lambda>c. c \<noteq> CHR ''/'') (rev url))"

text \<open>
  The part of the URL the code uses: what follows the second slash (host and path of
  \<open>scheme://host/path\<close>), without one trailing slash, every other slash a hyphen;
  empty when the URL has fewer than two slashes.
\<close>

definition drop_through_slash :: "string \<Rightarrow> string option" where
  "drop_through_slash s =
     (if CHR ''/'' \<in> set s then Some (tl (dropWhile (\<lambda>c. c \<noteq> CHR ''/'') s)) else None)"

definition service_url_part :: "string \<Rightarrow> string" where
  "service_url_part msURL =
     (case Option.bind (drop_through_slash msURL) drop_through_slash of
        None \<Rightarrow> []
      | Some r \<Rightarrow> map (\<lambda>c. if c = CHR ''/'' then CHR ''-'' else c)
                   (if r \<noteq> [] \<and> last r = CHR ''/'' then butlast r else r))"

section \<open>Scenarios\<close>

text \<open>
  A small node for concrete runs. The database holds the device record and the names
  of the services already created; a notification is the name of the created service.
  The registry knows four pattern names; the resolver answers per workload URL; the
  provisioner reports a service whose name is in the database as already present and
  the reference \<open>http://example.com/ms/z\<close> as needing manual configuration.
\<close>

type_synonym node_db = "ExchangeDevice option \<times> string list"

definition node_device :: "string \<Rightarrow> string \<Rightarrow> ExchangeDevice" where
  "node_device pattern state =
     \<lparr>Id_p = ''node1'', Org = ''myorg'', Pattern = pattern, Token = ''tok'',
      Config_p = \<lparr>State_p = state\<rparr>\<rparr>"

definition node_api_spec :: "string \<Rightarrow> APISpecification" where
  "node_api_spec ref =
     \<lparr>SpecRef = ref, Org_a = ''myorg'', Version = ''1.0.0'', ExclusiveAccess = False,
      Arch = ''amd64''\<rparr>"

definition node_workload :: "string \<Rightarrow> string \<Rightarrow> string list \<Rightarrow> WorkloadReference" where
  "node_workload url arch versions =
     \<lparr>WorkloadURL = url, WorkloadOrg = ''myorg'', WorkloadArch = arch,
      WorkloadVersions = map (\<lambda>v. \<lparr>Version_c = v\<rparr>) versions\<rparr>"

definition node_patterns :: "string \<Rightarrow> (string, exchange_Pattern) mapping" where
  "node_patterns name =
     (if name = ''pat''
      then Mapping.update ''myorg/pat''
             \<lparr>Workloads = [node_workload ''http://example.com/wl/a'' ''arm'' [''1.0.0''],
                           node_workload ''http://example.com/wl/b'' ''amd64'' [''1.0.0'', ''2.0.0'']]\<rparr>
             Mapping.empty
      else if name = ''patz''
      then Mapping.update ''myorg/patz''
             \<lparr>Workloads = [node_workload ''http://example.com/wl/d'' ''amd64'' [''1.0.0'']]\<rparr>
             Mapping.empty
      else if name = ''patxz''
      then Mapping.update ''myorg/patxz''
             \<lparr>Workloads = [node_workload ''http://example.com/wl/e'' ''amd64'' [''1.0.0'']]\<rparr>
             Mapping.empty
      else if name = ''other''
      then Mapping.update ''myorg/pat'' \<lparr>Workloads = []\<rparr> Mapping.empty
      else Mapping.empty)"

definition node_resolve :: "string \<Rightarrow> string \<Rightarrow> APISpecList \<times> go_error option" where
  "node_resolve url v =
     (if url = ''http://example.com/wl/b''
      then (if v = ''1.0.0''
            then ([node_api_spec ''http://example.com/ms/x''], None)
            else ([node_api_spec ''http://example.com/ms/x'', node_api_spec ''http://example.com/ms/y''], None))
      else if url = ''http://example.com/wl/d''
      then ([node_api_spec ''http://example.com/ms/z''], None)
      else if url = ''http://example.com/wl/e''
      then ([node_api_spec ''http://example.com/ms/x'', node_api_spec ''http://example.com/ms/z''], None)
      else ([], Some (OtherError ''no such workload'')))"

definition node_create ::
  "Service \<Rightarrow> go_error option \<Rightarrow> node_db \<Rightarrow> (node_db, string) create_outcome" where
  "node_create service cse d =
     (if Name_s service \<in> set (snd d)
      then ((True, None, ''''), Some (DuplicateServiceError ''already present''), d)
      else if Url_s service = ''http://example.com/ms/z''
      then ((True, None, ''''), Some (MSMissingVariableConfigError ''variable missing''), d)
      else ((False, Some service, Name_s service), cse, (fst d, snd d @ [Name_s service])))"

definition node_env :: "(node_db, string) handlers" where
  "node_env =
     \<lparr>errorhandler = (\<lambda>e. True),
      getPatterns = (\<lambda>org pattern id token. (node_patterns pattern, None)),
      resolveWorkload = (\<lambda>url org v arch id token. node_resolve url v),
      FindExchangeDevice = (\<lambda>d. (fst d, None)),
      SetConfigstate = (\<lambda>dev d id state.
         ((Some (dev\<lparr>Config_p := \<lparr>State_p = state\<rparr>\<rparr>), None),
          (Some (dev\<lparr>Config_p := \<lparr>State_p = state\<rparr>\<rparr>), snd d))),
      CreateService = node_create,
      ReplaceHigherSharedSingleton = (\<lambda>running sub. running),
      MergeWith = (\<lambda>running sub. running @ filter (\<lambda>a. a \<notin> set running) sub),
      ArchString = ''amd64'',
      GetId = (\<lambda>dev. Org dev @ ''/'' @ Id_p dev),
      fmt_v_error = (\<lambda>e. case e of None \<Rightarrow> ''<nil>'' | Some x \<Rightarrow> Err x),
      fmt_T_error = (\<lambda>e. ''error''),
      fmt_v_patterns = (\<lambda>m. ''map'')\<rparr>"

definition node_world :: "string \<Rightarrow> string \<Rightarrow> string list \<Rightarrow> node_db world" where
  "node_world pattern state services =
     \<lparr>db = (Some (node_device pattern state), services), calls = []\<rparr>"

definition node_request :: "string \<Rightarrow> api_Configstate" where
  "node_request state = \<lparr>State = Some state\<rparr>"

section \<open>Lemmas on strings\<close>

lemma SplitN_three:
  "SplitN s (CHR ''/'') 3 =
   (case drop_through_slash s of
      None \<Rightarrow> [s]
    | Some r \<Rightarrow> takeWhile (\<lambda>c. c \<noteq> CHR ''/'') s #
        (case drop_through_slash r of
           None \<Rightarrow> [r]
         | Some r2 \<Rightarrow> [takeWhile (\<lambda>c. c \<noteq> CHR ''/'') r, r2]))"
  by (simp add: numeral_3_eq_3 drop_through_slash_def)

lemma Sprintf_name: "Sprintf ''%v_%v_%v'' [a, b, c] = a @ ''_'' @ b @ ''_'' @ c"
  by simp

lemma TrimSuffix_slash:
  "TrimSuffix r ''/'' = (if r \<noteq> [] \<and> last r = CHR ''/'' then butlast r else r)"
  by (cases r rule: rev_cases) (auto simp: TrimSuffix_def)

lemma Replace_slash:
  "Replace s (CHR ''/'') ''-'' = map (\<lambda>c. if c = CHR ''/'' then CHR ''-'' else c) s"
  by (induction s) (auto simp: Replace_def)

lemma transition_message:
  "Sprintf ''Transition from '%v' to '%v' is not supported.'' [a, b] =
   ''Transition from '' @ [CHR 0x27] @ a @ [CHR 0x27] @ '' to '' @ [CHR 0x27] @ b @ [CHR 0x27] @
   '' is not supported.''"
  by simp

lemma supported_message:
  "Sprintf ''Supported state values are '%v' and '%v'.''
     [CONFIGSTATE_CONFIGURING, CONFIGSTATE_CONFIGURED] =
   ''Supported state values are 'configuring' and 'configured'.''"
  by (simp add: CONFIGSTATE_CONFIGURING_def CONFIGSTATE_CONFIGURED_def)

section \<open>Lemmas on the paths through UpdateConfigstate\<close>

lemma ValidStateChange_iff:
  "ValidStateChange from to \<longleftrightarrow> from = ''configuring'' \<and> to = ''configured''"
  by (simp add: ValidStateChange_def CONFIGSTATE_CONFIGURING_def CONFIGSTATE_CONFIGURED_def)

lemma UpdateConfigstate_unsupported_target:
  assumes "FindExchangeDevice env (db w) = (Some pDevice, None)"
    and "State cfg = Some to"
    and "to \<noteq> ''configuring'' \<and> to \<noteq> ''configured''"
  shows "UpdateConfigstate env cfg w =
     fault env (NewAPIUserInputError
         ''Supported state values are 'configuring' and 'configured'.''
         ''configstate.state'') (record_call CalledFindExchangeDevice w)"
proof -
  from assms have "UpdateConfigstate env cfg w =
     fault env (NewAPIUserInputError
         (Sprintf ''Supported state values are '%v' and '%v'.''
            [CONFIGSTATE_CONFIGURING, CONFIGSTATE_CONFIGURED])
         ''configstate.state'') (record_call CalledFindExchangeDevice w)"
    by (simp add: UpdateConfigstate_def CONFIGSTATE_CONFIGURING_def CONFIGSTATE_CONFIGURED_def
        Let_def del: Sprintf.simps)
  then show ?thesis by (simp only: supported_message)
qed

lemma UpdateConfigstate_noop:
  assumes "FindExchangeDevice env (db w) = (Some pDevice, None)"
    and "State cfg = Some to"
    and "to = ''configuring'' \<or> to = ''configured''"
    and "State_p (Config_p pDevice) = to"
  shows "UpdateConfigstate env cfg w =
     (Return (False, Config (ConvertFromPersistentHorizonDevice pDevice), []),
      record_call CalledFindExchangeDevice w)"
  using assms
  by (auto simp add: UpdateConfigstate_def NoOpStateChange_def CONFIGSTATE_CONFIGURING_def
      CONFIGSTATE_CONFIGURED_def Let_def simp del: Sprintf.simps)

lemma UpdateConfigstate_rejected:
  assumes "FindExchangeDevice env (db w) = (Some pDevice, None)"
    and "State cfg = Some to"
    and "to = ''configuring'' \<or> to = ''configured''"
    and "State_p (Config_p pDevice) \<noteq> to"
    and "\<not> ValidStateChange (State_p (Config_p pDevice)) to"
  shows "UpdateConfigstate env cfg w =
     fault env (NewAPIUserInputError
         (Sprintf ''Transition from '%v' to '%v' is not supported.'' [State_p (Config_p pDevice), to])
         ''configstate.state'') (record_call CalledFindExchangeDevice w)"
  using assms
  by (auto simp add: UpdateConfigstate_def NoOpStateChange_def CONFIGSTATE_CONFIGURING_def
      CONFIGSTATE_CONFIGURED_def Let_def simp del: Sprintf.simps)

lemma UpdateConfigstate_configure:
  assumes "FindExchangeDevice env (db w) = (Some pDevice, None)"
    and "State_p (Config_p pDevice) = ''configuring''"
    and "State cfg = Some ''configured''"
  shows "UpdateConfigstate env cfg w =
     (case (if Pattern pDevice \<noteq> ''''
            then autoconfig env pDevice [] (record_call CalledFindExchangeDevice w)
            else Inr ([], record_call CalledFindExchangeDevice w)) of
        Inl r \<Rightarrow> r
      | Inr (msgs', w') \<Rightarrow> persist_state env pDevice ''configured'' msgs' w')"
  using assms
  by (simp add: UpdateConfigstate_def NoOpStateChange_def ValidStateChange_iff
      CONFIGSTATE_CONFIGURING_def CONFIGSTATE_CONFIGURED_def Let_def del: Sprintf.simps)

lemma autoconfig_bad_pattern:
  assumes "getPatterns env (Org pDevice) (Pattern pDevice) (GetId env pDevice) (Token pDevice) =
             (pattern, None)"
    and "Mapping.size pattern \<noteq> 1 \<or>
         Mapping.lookup pattern (Org pDevice @ ''/'' @ Pattern pDevice) = None"
  shows "\<exists>msg. autoconfig env pDevice msgs w =
     Inl (fault env (NewSystemError msg)
       (record_call (CalledGetPatterns (Org pDevice) (Pattern pDevice) (GetId env pDevice)
          (Token pDevice)) w))"
proof (cases "Mapping.size pattern \<noteq> 1")
  case True
  with assms(1) show ?thesis
    by (simp add: autoconfig_def Let_def del: Sprintf.simps) blast
next
  case False
  with assms(2) have
    "Mapping.lookup pattern (Sprintf ''%v/%v'' [Org pDevice, Pattern pDevice]) = None"
    by simp
  with False assms(1) show ?thesis
    by (simp add: autoconfig_def Let_def del: Sprintf.simps) blast
qed

lemma autoconfig_resolved:
  assumes "getPatterns env (Org pDevice) (Pattern pDevice) (GetId env pDevice) (Token pDevice) =
             (pattern, None)"
    and "Mapping.size pattern = 1"
    and "Mapping.lookup pattern (Org pDevice @ ''/'' @ Pattern pDevice) = Some patternDef"
    and "resolve_workloads env pDevice (ArchString env) (Workloads patternDef) []
           (w\<lparr>calls := calls w @ [CalledGetPatterns (Org pDevice) (Pattern pDevice)
                 (GetId env pDevice) (Token pDevice)]\<rparr>) = Inr (specs, w1)"
  shows "autoconfig env pDevice msgs w = create_services env None specs None msgs w1"
proof -
  have "Mapping.lookup pattern (Sprintf ''%v/%v'' [Org pDevice, Pattern pDevice]) = Some patternDef"
    using assms(3) by simp
  with assms(1,2,4) show ?thesis
    by (simp add: autoconfig_def Let_def record_call_def del: Sprintf.simps)
qed

lemma persist_state_ok:
  "SetConfigstate env pDevice (db w) (Id_p pDevice) st = ((Some updatedDev, None), d') \<Longrightarrow>
   persist_state env pDevice st msgs w =
     (Return (False, Some \<lparr>State = Some (State_p (Config_p updatedDev))\<rparr>, msgs),
      w\<lparr>db := d', calls := calls w @ [CalledSetConfigstate (Id_p pDevice) st]\<rparr>)"
  by (simp add: persist_state_def ConvertFromPersistentHorizonDevice_def record_call_def)

section \<open>Lemmas on the loops\<close>

lemma resolve_workloads_filter:
  "resolve_workloads env pDevice thisArch workloads acc w =
   resolve_workloads env pDevice thisArch
     (filter (\<lambda>workload. WorkloadArch workload = thisArch) workloads) acc w"
  by (induction workloads arbitrary: acc w) (auto split: sum.splits)

lemma resolve_versions_ok:
  "\<forall>choice \<in> set choices. snd (resolved env pDevice thisArch (workload, choice)) = None \<Longrightarrow>
   resolve_versions env pDevice thisArch workload choices acc w =
   Inr (foldl (accumulate env) acc
          (map (\<lambda>choice. fst (resolved env pDevice thisArch (workload, choice))) choices),
        w\<lparr>calls := calls w @
             map (\<lambda>choice. resolve_call env pDevice thisArch (workload, choice)) choices\<rparr>)"
proof (induction choices arbitrary: acc w)
  case Nil
  then show ?case by simp
next
  case (Cons choice choices)
  then show ?case
    by (auto simp add: resolved_def resolve_call_def accumulate_def record_call_def Let_def
        split: prod.splits simp del: Sprintf.simps)
qed

lemma version_requests_Cons:
  "version_requests thisArch (workload # rest) =
   (if WorkloadArch workload = thisArch
    then map (\<lambda>choice. (workload, choice)) (WorkloadVersions workload)
    else []) @ version_requests thisArch rest"
  by (simp add: version_requests_def)

lemma db_after_Cons: "db_after d (out # outs) = db_after (snd (snd out)) outs"
  by (simp add: db_after_def)

lemma error_after_Cons: "error_after cse (out # outs) = error_after (fst (snd out)) outs"
  by (simp add: error_after_def)

text \<open>
  As long as every answer is "created" or "already present", the loop goes on: after a
  prefix of such answers it stands at the rest of the list, with one notification per
  created service and one recorded call per API spec of the prefix.
\<close>

lemma create_services_append:
  "\<forall>out \<in> set (create_outcomes env pre cse (db w)). created out \<or> already_present out \<Longrightarrow>
   create_services env err (pre @ rest) cse msgs w =
   create_services env err rest
     (error_after cse (create_outcomes env pre cse (db w)))
     (msgs @ map notification (filter created (create_outcomes env pre cse (db w))))
     (w\<lparr>db := db_after (db w) (create_outcomes env pre cse (db w)),
        calls := calls w @ map (\<lambda>apiSpec. CalledCreateService (service_for apiSpec)) pre\<rparr>)"
proof (induction pre arbitrary: cse msgs w)
  case Nil
  then show ?case by (simp add: db_after_def error_after_def)
next
  case (Cons apiSpec pre)
  obtain errHandled newService msg cse' d' where
    out: "CreateService env (service_for apiSpec) cse (db w) =
            ((errHandled, newService, msg), cse', d')"
    by (metis prod_cases3)
  let ?w = "record_call (CalledCreateService (service_for apiSpec)) (w\<lparr>db := d'\<rparr>)"
  from Cons.prems out have rest_ok:
    "\<forall>out \<in> set (create_outcomes env pre cse' (db ?w)). created out \<or> already_present out"
    by (simp add: Let_def record_call_def)
  from Cons.prems out have this_ok:
    "\<not> errHandled \<or> (\<exists>m. cse' = Some (DuplicateServiceError m))"
    by (auto simp: Let_def created_def already_present_def split: option.splits go_error.splits)
  show ?case
  proof (cases errHandled)
    case False
    then have "create_services env err ((apiSpec # pre) @ rest) cse msgs w =
        create_services env err (pre @ rest) cse' (msgs @ [msg]) ?w"
      using out by (simp add: service_for_def del: Sprintf.simps)
    also note Cons.IH [OF rest_ok, of "msgs @ [msg]"]
    finally show ?thesis
      using out False
      by (simp add: Let_def db_after_Cons error_after_Cons created_def notification_def
          record_call_def)
  next
    case True
    with this_ok obtain m where m: "cse' = Some (DuplicateServiceError m)" by blast
    with True have "create_services env err ((apiSpec # pre) @ rest) cse msgs w =
        create_services env err (pre @ rest) cse' msgs ?w"
      using out by (simp add: service_for_def del: Sprintf.simps)
    also note Cons.IH [OF rest_ok, of msgs]
    finally show ?thesis
      using out True
      by (simp add: Let_def db_after_Cons error_after_Cons created_def notification_def
          record_call_def)
  qed
qed

text \<open>
  With \<open>err\<close> nil, an answer "needs manual configuration" ends the loop in a panic: the
  type assertion is applied to \<open>err\<close>.
\<close>

lemma create_services_needs_config:
  assumes "needs_manual_config (CreateService env (service_for apiSpec) cse (db w))"
  shows "create_services env None (apiSpec # rest) cse msgs w =
     Inl (Panic, w\<lparr>db := snd (snd (CreateService env (service_for apiSpec) cse (db w))),
                    calls := calls w @ [CalledCreateService (service_for apiSpec)]\<rparr>)"
proof -
  obtain errHandled newService msg cse' d' where
    out: "CreateService env (service_for apiSpec) cse (db w) =
            ((errHandled, newService, msg), cse', d')"
    by (metis prod_cases3)
  with assms have "errHandled" and "\<exists>m. cse' = Some (MSMissingVariableConfigError m)"
    by (auto simp: needs_manual_config_def split: option.splits go_error.splits)
  with out show ?thesis
    by (auto simp add: service_for_def record_call_def simp del: Sprintf.simps)
qed

section \<open>The claims\<close>

text \<open>
  C9. When no device record is registered and the read of the store succeeds,
  \<open>FindConfigstateForOutput\<close> returns a configuration-state view whose state is
  "configuring", and no error.
\<close>

theorem FindConfigstateForOutput_unregistered:
  "FindExchangeDevice env (db w) = (None, None) \<Longrightarrow>
   fst (FindConfigstateForOutput env w) = (Some \<lparr>State = Some ''configuring''\<rparr>, None)"
  by (simp add: FindConfigstateForOutput_def CONFIGSTATE_CONFIGURING_def)

theorem FindConfigstateForOutput_unregistered_witness:
  "FindExchangeDevice node_env (db \<lparr>db = (None, []), calls = []\<rparr>) = (None, None) \<and>
   fst (FindConfigstateForOutput node_env \<lparr>db = (None, []), calls = []\<rparr>) =
     (Some \<lparr>State = Some ''configuring''\<rparr>, None)"
  using FindConfigstateForOutput_unregistered [of node_env "\<lparr>db = (None, []), calls = []\<rparr>"]
  by (simp add: node_env_def)

text \<open>
  C4. \<open>NoOpStateChange s s\<close> holds for every \<open>s\<close>. When the requested state equals the
  current state of the registered device (one of the two configuration states),
  \<open>UpdateConfigstate\<close> returns that state, unhandled and with no notification; the
  database is unchanged and the only call made is the read of the device: no pattern
  is fetched, no workload resolved, no service created, no state written.
\<close>

theorem NoOpStateChange_and_noop_request:
  "NoOpStateChange s s \<and>
   (FindExchangeDevice env (db w) = (Some pDevice, None) \<and> State_p (Config_p pDevice) = s \<and>
    State cfg = Some s \<and> (s = ''configuring'' \<or> s = ''configured'') \<longrightarrow>
    UpdateConfigstate env cfg w =
      (Return (False, Some \<lparr>State = Some s\<rparr>, []),
       w\<lparr>calls := calls w @ [CalledFindExchangeDevice]\<rparr>))"
  by (auto simp: NoOpStateChange_def UpdateConfigstate_def CONFIGSTATE_CONFIGURING_def
      CONFIGSTATE_CONFIGURED_def ConvertFromPersistentHorizonDevice_def record_call_def)

theorem NoOpStateChange_and_noop_request_witness:
  "NoOpStateChange ''configured'' ''configured'' \<and>
   FindExchangeDevice node_env (db (node_world '''' ''configured'' [])) =
     (Some (node_device '''' ''configured''), None) \<and>
   UpdateConfigstate node_env (node_request ''configured'') (node_world '''' ''configured'' []) =
     (Return (False, Some \<lparr>State = Some ''configured''\<rparr>, []),
      (node_world '''' ''configured'' [])\<lparr>calls := [CalledFindExchangeDevice]\<rparr>)"
  using NoOpStateChange_and_noop_request [of "''configured''" node_env
      "node_world '''' ''configured'' []" "node_device '''' ''configured''"
      "node_request ''configured''"]
  by (simp add: node_env_def node_world_def node_device_def node_request_def)

text \<open>
  C3, as stated: every pair for which \<open>ValidStateChange\<close> is false is answered by
  \<open>UpdateConfigstate\<close> with an invalid-input fault naming both states. It fails for
  an identical pair, which is answered as a no-op with no fault, and for a target
  outside the two states, whose fault lists the supported values instead.
\<close>

theorem rejected_transition_counterexample:
  "(\<not> ValidStateChange ''configured'' ''configured'' \<and>
    UpdateConfigstate node_env (node_request ''configured'') (node_world '''' ''configured'' []) =
      (Return (False, Some \<lparr>State = Some ''configured''\<rparr>, []),
       (node_world '''' ''configured'' [])\<lparr>calls := [CalledFindExchangeDevice]\<rparr>)) \<and>
   (\<not> ValidStateChange ''configuring'' ''bogus'' \<and>
    UpdateConfigstate node_env (node_request ''bogus'') (node_world '''' ''configuring'' []) =
      (Return (True, None, []),
       (node_world '''' ''configuring'' [])\<lparr>calls := [CalledFindExchangeDevice,
          CalledErrorhandler (NewAPIUserInputError
            ''Supported state values are 'configuring' and 'configured'.''
            ''configstate.state'')]\<rparr>))"
  by code_simp

text \<open>
  C3, amended. \<open>ValidStateChange from to\<close> is true if and only if \<open>from\<close> is
  "configuring" and \<open>to\<close> is "configured". For a registered device in state \<open>from\<close>,
  a request for a state \<open>to\<close> that is one of the two states, differs from \<open>from\<close> and
  is not a valid change is answered with an invalid-input fault naming both states; a
  request for a state outside the two is answered with an invalid-input fault listing
  the supported values. In both cases nothing else is called. A request for a state
  that is one of the two states and equals the device's current state is a no-op, not
  a fault: the current state is returned and the error handler is not called.
\<close>

theorem ValidStateChange_and_rejection:
  "(ValidStateChange from to \<longleftrightarrow> from = ''configuring'' \<and> to = ''configured'') \<and>
   (FindExchangeDevice env (db w) = (Some pDevice, None) \<and> State_p (Config_p pDevice) = from \<and>
    State cfg = Some to \<and> (to = ''configuring'' \<or> to = ''configured'') \<and> from \<noteq> to \<and>
    \<not> ValidStateChange from to \<longrightarrow>
    UpdateConfigstate env cfg w =
      (Return (errorhandler env (NewAPIUserInputError
          (''Transition from '' @ [CHR 0x27] @ from @ [CHR 0x27] @ '' to '' @ [CHR 0x27] @ to @
           [CHR 0x27] @ '' is not supported.'')
          ''configstate.state''), None, []),
       w\<lparr>calls := calls w @ [CalledFindExchangeDevice, CalledErrorhandler (NewAPIUserInputError
          (''Transition from '' @ [CHR 0x27] @ from @ [CHR 0x27] @ '' to '' @ [CHR 0x27] @ to @
           [CHR 0x27] @ '' is not supported.'')
          ''configstate.state'')]\<rparr>)) \<and>
   (FindExchangeDevice env (db w) = (Some pDevice, None) \<and> State cfg = Some to \<and>
    to \<noteq> ''configuring'' \<and> to \<noteq> ''configured'' \<longrightarrow>
    UpdateConfigstate env cfg w =
      (Return (errorhandler env (NewAPIUserInputError
          ''Supported state values are 'configuring' and 'configured'.''
          ''configstate.state''), None, []),
       w\<lparr>calls := calls w @ [CalledFindExchangeDevice, CalledErrorhandler (NewAPIUserInputError
          ''Supported state values are 'configuring' and 'configured'.''
          ''configstate.state'')]\<rparr>)) \<and>
   (FindExchangeDevice env (db w) = (Some pDevice, None) \<and> State_p (Config_p pDevice) = to \<and>
    State cfg = Some to \<and> (to = ''configuring'' \<or> to = ''configured'') \<longrightarrow>
    UpdateConfigstate env cfg w =
      (Return (False, Some \<lparr>State = Some to\<rparr>, []),
       w\<lparr>calls := calls w @ [CalledFindExchangeDevice]\<rparr>))"
proof (intro conjI impI)
  show "ValidStateChange from to \<longleftrightarrow> from = ''configuring'' \<and> to = ''configured''"
    by (rule ValidStateChange_iff)
next
  assume a: "FindExchangeDevice env (db w) = (Some pDevice, None) \<and>
    State_p (Config_p pDevice) = from \<and> State cfg = Some to \<and>
    (to = ''configuring'' \<or> to = ''configured'') \<and> from \<noteq> to \<and> \<not> ValidStateChange from to"
  then have "UpdateConfigstate env cfg w =
     fault env (NewAPIUserInputError
         (Sprintf ''Transition from '%v' to '%v' is not supported.'' [State_p (Config_p pDevice), to])
         ''configstate.state'') (record_call CalledFindExchangeDevice w)"
    by (intro UpdateConfigstate_rejected) auto
  with a show "UpdateConfigstate env cfg w =
      (Return (errorhandler env (NewAPIUserInputError
          (''Transition from '' @ [CHR 0x27] @ from @ [CHR 0x27] @ '' to '' @ [CHR 0x27] @ to @
           [CHR 0x27] @ '' is not supported.'')
          ''configstate.state''), None, []),
       w\<lparr>calls := calls w @ [CalledFindExchangeDevice, CalledErrorhandler (NewAPIUserInputError
          (''Transition from '' @ [CHR 0x27] @ from @ [CHR 0x27] @ '' to '' @ [CHR 0x27] @ to @
           [CHR 0x27] @ '' is not supported.'')
          ''configstate.state'')]\<rparr>)"
    by (simp add: transition_message fault_def record_call_def del: Sprintf.simps)
next
  assume a: "FindExchangeDevice env (db w) = (Some pDevice, None) \<and> State cfg = Some to \<and>
    to \<noteq> ''configuring'' \<and> to \<noteq> ''configured''"
  then have "UpdateConfigstate env cfg w =
     fault env (NewAPIUserInputError
         ''Supported state values are 'configuring' and 'configured'.''
         ''configstate.state'') (record_call CalledFindExchangeDevice w)"
    by (intro UpdateConfigstate_unsupported_target) auto
  then show "UpdateConfigstate env cfg w =
      (Return (errorhandler env (NewAPIUserInputError
          ''Supported state values are 'configuring' and 'configured'.''
          ''configstate.state''), None, []),
       w\<lparr>calls := calls w @ [CalledFindExchangeDevice, CalledErrorhandler (NewAPIUserInputError
          ''Supported state values are 'configuring' and 'configured'.''
          ''configstate.state'')]\<rparr>)"
    by (simp add: fault_def record_call_def)
next
  assume a: "FindExchangeDevice env (db w) = (Some pDevice, None) \<and>
    State_p (Config_p pDevice) = to \<and> State cfg = Some to \<and>
    (to = ''configuring'' \<or> to = ''configured'')"
  then have "UpdateConfigstate env cfg w =
     (Return (False, Config (ConvertFromPersistentHorizonDevice pDevice), []),
      record_call CalledFindExchangeDevice w)"
    by (intro UpdateConfigstate_noop) auto
  with a show "UpdateConfigstate env cfg w =
      (Return (False, Some \<lparr>State = Some to\<rparr>, []),
       w\<lparr>calls := calls w @ [CalledFindExchangeDevice]\<rparr>)"
    by (simp add: ConvertFromPersistentHorizonDevice_def record_call_def)
qed

theorem ValidStateChange_and_rejection_witness:
  "(\<not> ValidStateChange ''configured'' ''configuring'' \<and>
    UpdateConfigstate node_env (node_request ''configuring'') (node_world '''' ''configured'' []) =
      (Return (True, None, []),
       (node_world '''' ''configured'' [])\<lparr>calls := [CalledFindExchangeDevice,
          CalledErrorhandler (NewAPIUserInputError
            ''Transition from 'configured' to 'configuring' is not supported.''
            ''configstate.state'')]\<rparr>)) \<and>
   UpdateConfigstate node_env (node_request ''bogus'') (node_world '''' ''configuring'' []) =
     (Return (True, None, []),
      (node_world '''' ''configuring'' [])\<lparr>calls := [CalledFindExchangeDevice,
         CalledErrorhandler (NewAPIUserInputError
           ''Supported state values are 'configuring' and 'configured'.''
           ''configstate.state'')]\<rparr>) \<and>
   UpdateConfigstate node_env (node_request ''configuring'') (node_world '''' ''configuring'' []) =
     (Return (False, Some \<lparr>State = Some ''configuring''\<rparr>, []),
      (node_world '''' ''configuring'' [])\<lparr>calls := [CalledFindExchangeDevice]\<rparr>)"
  using ValidStateChange_and_rejection [of "''configured''" "''configuring''" node_env
      "node_world '''' ''configured'' []" "node_device '''' ''configured''"
      "node_request ''configuring''"]
    ValidStateChange_and_rejection [of "''configuring''" "''bogus''" node_env
      "node_world '''' ''configuring'' []" "node_device '''' ''configuring''"
      "node_request ''bogus''"]
    ValidStateChange_and_rejection [of "''configured''" "''configuring''" node_env
      "node_world '''' ''configuring'' []" "node_device '''' ''configuring''"
      "node_request ''configuring''"]
  by (simp add: node_env_def node_world_def node_device_def node_request_def)

text \<open>
  C7. With a pattern set on the device and the pattern fetch answered without error,
  a map whose size is not 1, or that lacks the key organization/pattern, stops the
  workflow with a system fault: the database is unchanged, and after reading the
  device and fetching the pattern the only call is the one to the error handler, so no
  workload is resolved, no service created and no state written.
\<close>

theorem UpdateConfigstate_pattern_not_unique:
  assumes "FindExchangeDevice env (db w) = (Some pDevice, None)"
    and "State_p (Config_p pDevice) = ''configuring''"
    and "State cfg = Some ''configured''"
    and "Pattern pDevice \<noteq> ''''"
    and "getPatterns env (Org pDevice) (Pattern pDevice) (GetId env pDevice) (Token pDevice) =
           (pattern, None)"
    and "Mapping.size pattern \<noteq> 1 \<or>
         Mapping.lookup pattern (Org pDevice @ ''/'' @ Pattern pDevice) = None"
  shows "\<exists>msg. UpdateConfigstate env cfg w =
     (Return (errorhandler env (NewSystemError msg), None, []),
      w\<lparr>calls := calls w @ [CalledFindExchangeDevice,
           CalledGetPatterns (Org pDevice) (Pattern pDevice) (GetId env pDevice) (Token pDevice),
           CalledErrorhandler (NewSystemError msg)]\<rparr>)"
proof -
  from autoconfig_bad_pattern [OF assms(5,6)]
  obtain msg where "autoconfig env pDevice [] (record_call CalledFindExchangeDevice w) =
     Inl (fault env (NewSystemError msg)
       (record_call (CalledGetPatterns (Org pDevice) (Pattern pDevice) (GetId env pDevice)
            (Token pDevice))
          (record_call CalledFindExchangeDevice w)))"
    by blast
  then have "UpdateConfigstate env cfg w =
     (Return (errorhandler env (NewSystemError msg), None, []),
      w\<lparr>calls := calls w @ [CalledFindExchangeDevice,
           CalledGetPatterns (Org pDevice) (Pattern pDevice) (GetId env pDevice) (Token pDevice),
           CalledErrorhandler (NewSystemError msg)]\<rparr>)"
    using assms(4)
    by (simp add: UpdateConfigstate_configure [OF assms(1-3)] fault_def record_call_def)
  then show ?thesis by blast
qed

theorem UpdateConfigstate_pattern_not_unique_witness:
  "Mapping.size (node_patterns ''none'') \<noteq> 1 \<and>
   (\<exists>msg. UpdateConfigstate node_env (node_request ''configured'')
       (node_world ''none'' ''configuring'' []) =
     (Return (errorhandler node_env (NewSystemError msg), None, []),
      (node_world ''none'' ''configuring'' [])\<lparr>calls :=
         calls (node_world ''none'' ''configuring'' []) @
         [CalledFindExchangeDevice,
          CalledGetPatterns (Org (node_device ''none'' ''configuring''))
            (Pattern (node_device ''none'' ''configuring''))
            (GetId node_env (node_device ''none'' ''configuring''))
            (Token (node_device ''none'' ''configuring'')),
          CalledErrorhandler (NewSystemError msg)]\<rparr>))"
proof -
  have h1: "FindExchangeDevice node_env (db (node_world ''none'' ''configuring'' [])) =
      (Some (node_device ''none'' ''configuring''), None)"
    by (simp add: node_env_def node_world_def)
  have h2: "State_p (Config_p (node_device ''none'' ''configuring'')) = ''configuring''"
    by (simp add: node_device_def)
  have h3: "State (node_request ''configured'') = Some ''configured''"
    by (simp add: node_request_def)
  have h4: "Pattern (node_device ''none'' ''configuring'') \<noteq> ''''"
    by (simp add: node_device_def)
  have h5: "getPatterns node_env (Org (node_device ''none'' ''configuring''))
      (Pattern (node_device ''none'' ''configuring''))
      (GetId node_env (node_device ''none'' ''configuring''))
      (Token (node_device ''none'' ''configuring'')) = (node_patterns ''none'', None)"
    by (simp add: node_env_def node_device_def)
  have h6: "Mapping.size (node_patterns ''none'') \<noteq> 1"
    by (simp add: node_patterns_def)
  then have h6': "Mapping.size (node_patterns ''none'') \<noteq> 1 \<or>
      Mapping.lookup (node_patterns ''none'')
        (Org (node_device ''none'' ''configuring'') @ ''/'' @
         Pattern (node_device ''none'' ''configuring'')) = None"
    by (rule disjI1)
  from h6 UpdateConfigstate_pattern_not_unique [OF h1 h2 h3 h4 h5 h6'] show ?thesis
    by (rule conjI)
qed

text \<open>
  C8, as stated: the service name is a function of the last path segment of the
  reference URL, the organization and the version. Two references with the same last
  path segment, organization and version get different names.
\<close>

theorem makeServiceName_last_segment_counterexample:
  "last_path_segment ''http://a.com/x'' = last_path_segment ''http://b.com/x'' \<and>
   makeServiceName ''http://a.com/x'' ''myorg'' ''1.0.0'' \<noteq>
   makeServiceName ''http://b.com/x'' ''myorg'' ''1.0.0''"
  by code_simp

text \<open>
  C8, amended. The service name is url_org_version, joined by underscores in that
  order, where url is what follows the second slash of the reference URL (host and
  path, for scheme://host/path), without one trailing slash and with every other
  slash replaced by a hyphen; url is empty when the URL has fewer than two slashes.
\<close>

theorem makeServiceName_url_org_version:
  "makeServiceName msURL msOrg msVersion =
   service_url_part msURL @ ''_'' @ msOrg @ ''_'' @ msVersion"
  unfolding makeServiceName_def Let_def SplitN_three Sprintf_name service_url_part_def
  by (simp add: TrimSuffix_slash Replace_slash split: option.splits)

text \<open>
  C5. A workload whose architecture differs from the node's is skipped entirely: the
  loop over that workload alone leaves the list and the world as they were (no entry
  added, no call to \<open>resolveWorkload\<close>, no fault), and wherever it stands among the
  workloads of the pattern, the resolution ends exactly as it does without it.
\<close>

theorem resolve_workloads_skips_other_arch:
  "WorkloadArch workload \<noteq> thisArch \<Longrightarrow>
   resolve_workloads env pDevice thisArch [workload] acc w = Inr (acc, w) \<and>
   resolve_workloads env pDevice thisArch (before @ workload # after) acc w =
   resolve_workloads env pDevice thisArch (before @ after) acc w"
proof
  assume a: "WorkloadArch workload \<noteq> thisArch"
  then show "resolve_workloads env pDevice thisArch [workload] acc w = Inr (acc, w)"
    by simp
  from a have
    "filter (\<lambda>workload. WorkloadArch workload = thisArch) (before @ workload # after) =
     filter (\<lambda>workload. WorkloadArch workload = thisArch) (before @ after)"
    by simp
  then show "resolve_workloads env pDevice thisArch (before @ workload # after) acc w =
      resolve_workloads env pDevice thisArch (before @ after) acc w"
    using resolve_workloads_filter [of env pDevice thisArch "before @ workload # after" acc w]
      resolve_workloads_filter [of env pDevice thisArch "before @ after" acc w]
    by simp
qed

theorem resolve_workloads_skips_other_arch_witness:
  "WorkloadArch (node_workload ''http://example.com/wl/a'' ''arm'' [''1.0.0'']) \<noteq> ''amd64'' \<and>
   resolve_workloads node_env (node_device ''pat'' ''configuring'') ''amd64''
     [node_workload ''http://example.com/wl/a'' ''arm'' [''1.0.0'']] []
     (node_world ''pat'' ''configuring'' []) = Inr ([], node_world ''pat'' ''configuring'' []) \<and>
   resolve_workloads node_env (node_device ''pat'' ''configuring'') ''amd64''
     ([] @ node_workload ''http://example.com/wl/a'' ''arm'' [''1.0.0''] #
       [node_workload ''http://example.com/wl/b'' ''amd64'' [''1.0.0'', ''2.0.0'']]) []
     (node_world ''pat'' ''configuring'' []) =
   resolve_workloads node_env (node_device ''pat'' ''configuring'') ''amd64''
     ([] @ [node_workload ''http://example.com/wl/b'' ''amd64'' [''1.0.0'', ''2.0.0'']]) []
     (node_world ''pat'' ''configuring'' [])"
proof -
  have h: "WorkloadArch (node_workload ''http://example.com/wl/a'' ''arm'' [''1.0.0'']) \<noteq> ''amd64''"
    by (simp add: node_workload_def)
  from h resolve_workloads_skips_other_arch [OF h] show ?thesis by (rule conjI)
qed

text \<open>
  C6. When every resolution succeeds, the resolved list is the fold, over the
  (workload, version choice) pairs of the workloads of the node's architecture in
  declaration order, of the step "replace singletons of the running list against the
  sub-list, then merge the sub-list into the result", starting from the running list;
  \<open>resolveWorkload\<close> is called once per pair, in that order.
\<close>

theorem resolve_workloads_accumulates:
  "\<forall>request \<in> set (version_requests thisArch workloads).
      snd (resolved env pDevice thisArch request) = None \<Longrightarrow>
   resolve_workloads env pDevice thisArch workloads acc w =
   Inr (foldl (accumulate env) acc
          (map (\<lambda>request. fst (resolved env pDevice thisArch request))
             (version_requests thisArch workloads)),
        w\<lparr>calls := calls w @
             map (resolve_call env pDevice thisArch) (version_requests thisArch workloads)\<rparr>)"
proof (induction workloads arbitrary: acc w)
  case Nil
  then show ?case by (simp add: version_requests_def)
next
  case (Cons workload rest)
  show ?case
  proof (cases "WorkloadArch workload = thisArch")
    case False
    with Cons show ?thesis by (simp add: version_requests_Cons)
  next
    case True
    with Cons.prems have
      "\<forall>choice \<in> set (WorkloadVersions workload).
         snd (resolved env pDevice thisArch (workload, choice)) = None"
      by (simp add: version_requests_Cons)
    note inner = resolve_versions_ok [OF this]
    from True Cons.prems have
      "\<forall>request \<in> set (version_requests thisArch rest).
         snd (resolved env pDevice thisArch request) = None"
      by (simp add: version_requests_Cons)
    note outer = Cons.IH [OF this]
    from True show ?thesis
      by (simp add: inner outer version_requests_Cons comp_def)
  qed
qed

theorem resolve_workloads_accumulates_witness:
  "map (\<lambda>request. snd (resolved node_env (node_device ''pat'' ''configuring'') ''amd64'' request))
     (version_requests ''amd64''
        [node_workload ''http://example.com/wl/a'' ''arm'' [''1.0.0''],
         node_workload ''http://example.com/wl/b'' ''amd64'' [''1.0.0'', ''2.0.0'']]) =
     [None, None] \<and>
   resolve_workloads node_env (node_device ''pat'' ''configuring'') ''amd64''
     [node_workload ''http://example.com/wl/a'' ''arm'' [''1.0.0''],
      node_workload ''http://example.com/wl/b'' ''amd64'' [''1.0.0'', ''2.0.0'']] []
     (node_world ''pat'' ''configuring'' []) =
   Inr ([node_api_spec ''http://example.com/ms/x'', node_api_spec ''http://example.com/ms/y''],
        (node_world ''pat'' ''configuring'' [])\<lparr>calls :=
           [CalledResolveWorkload ''http://example.com/wl/b'' ''myorg'' ''1.0.0'' ''amd64''
              ''myorg/node1'' ''tok'',
            CalledResolveWorkload ''http://example.com/wl/b'' ''myorg'' ''2.0.0'' ''amd64''
              ''myorg/node1'' ''tok'']\<rparr>)"
proof -
  let ?ws = "[node_workload ''http://example.com/wl/a'' ''arm'' [''1.0.0''],
         node_workload ''http://example.com/wl/b'' ''amd64'' [''1.0.0'', ''2.0.0'']]"
  let ?dev = "node_device ''pat'' ''configuring''"
  let ?w = "node_world ''pat'' ''configuring'' []"
  have h: "\<forall>request \<in> set (version_requests ''amd64'' ?ws).
      snd (resolved node_env ?dev ''amd64'' request) = None"
    by code_simp
  have e: "Inr (foldl (accumulate node_env) []
          (map (\<lambda>request. fst (resolved node_env ?dev ''amd64'' request))
             (version_requests ''amd64'' ?ws)),
        ?w\<lparr>calls := calls ?w @
             map (resolve_call node_env ?dev ''amd64'') (version_requests ''amd64'' ?ws)\<rparr>) =
     (Inr ([node_api_spec ''http://example.com/ms/x'', node_api_spec ''http://example.com/ms/y''],
        ?w\<lparr>calls :=
           [CalledResolveWorkload ''http://example.com/wl/b'' ''myorg'' ''1.0.0'' ''amd64''
              ''myorg/node1'' ''tok'',
            CalledResolveWorkload ''http://example.com/wl/b'' ''myorg'' ''2.0.0'' ''amd64''
              ''myorg/node1'' ''tok'']\<rparr>)
      :: (node_db, string) update_result + (APISpecList \<times> node_db world))"
    by code_simp
  from resolve_workloads_accumulates [OF h, of "[]" ?w] e
  have "resolve_workloads node_env ?dev ''amd64'' ?ws [] ?w =
     Inr ([node_api_spec ''http://example.com/ms/x'', node_api_spec ''http://example.com/ms/y''],
        ?w\<lparr>calls :=
           [CalledResolveWorkload ''http://example.com/wl/b'' ''myorg'' ''1.0.0'' ''amd64''
              ''myorg/node1'' ''tok'',
            CalledResolveWorkload ''http://example.com/wl/b'' ''myorg'' ''2.0.0'' ''amd64''
              ''myorg/node1'' ''tok'']\<rparr>)"
    by (rule trans)
  moreover have "map (\<lambda>request. snd (resolved node_env ?dev ''amd64'' request))
      (version_requests ''amd64'' ?ws) = [None, None]"
    by code_simp
  ultimately show ?thesis by simp
qed

text \<open>
  C2. When the device has a pattern, the pattern resolves to a list of API specs, and
  the provisioner answers each of them "created" or "already present"
  (\<open>DuplicateServiceError\<close>), the loop attempts every API spec in the order of the
  list, the state is written and the workflow returns without fault; the notifications
  returned are those of the created services, one each, in the order of the list, and
  none for a service already present.
\<close>

theorem UpdateConfigstate_already_present_continues:
  assumes "FindExchangeDevice env (db w) = (Some pDevice, None)"
    and "State_p (Config_p pDevice) = ''configuring''"
    and "State cfg = Some ''configured''"
    and "Pattern pDevice \<noteq> ''''"
    and "getPatterns env (Org pDevice) (Pattern pDevice) (GetId env pDevice) (Token pDevice) =
           (pattern, None)"
    and "Mapping.size pattern = 1"
    and "Mapping.lookup pattern (Org pDevice @ ''/'' @ Pattern pDevice) = Some patternDef"
    and "resolve_workloads env pDevice (ArchString env) (Workloads patternDef) []
           (w\<lparr>calls := calls w @ [CalledFindExchangeDevice,
                 CalledGetPatterns (Org pDevice) (Pattern pDevice) (GetId env pDevice)
                   (Token pDevice)]\<rparr>)
         = Inr (specs, w1)"
    and "outs = create_outcomes env specs None (db w1)"
    and "\<forall>out \<in> set outs. created out \<or> already_present out"
    and "SetConfigstate env pDevice (db_after (db w1) outs) (Id_p pDevice) ''configured'' =
           ((Some updatedDev, None), d')"
  shows "UpdateConfigstate env cfg w =
     (Return (False, Some \<lparr>State = Some (State_p (Config_p updatedDev))\<rparr>,
              map notification (filter created outs)),
      w1\<lparr>db := d',
         calls := calls w1 @ map (\<lambda>apiSpec. CalledCreateService (service_for apiSpec)) specs @
                  [CalledSetConfigstate (Id_p pDevice) ''configured'']\<rparr>)"
proof -
  let ?w0 = "record_call CalledFindExchangeDevice w"
  have res: "resolve_workloads env pDevice (ArchString env) (Workloads patternDef) []
           (?w0\<lparr>calls := calls ?w0 @ [CalledGetPatterns (Org pDevice) (Pattern pDevice)
                 (GetId env pDevice) (Token pDevice)]\<rparr>) = Inr (specs, w1)"
    using assms(8) by (simp add: record_call_def)
  have block: "autoconfig env pDevice [] ?w0 = create_services env None specs None [] w1"
    by (rule autoconfig_resolved [OF assms(5,6,7) res])
  have ok: "\<forall>out \<in> set (create_outcomes env specs None (db w1)).
      created out \<or> already_present out"
    using assms(9,10) by simp
  have loop: "create_services env None specs None [] w1 =
     Inr (map notification (filter created outs),
          w1\<lparr>db := db_after (db w1) outs,
             calls := calls w1 @ map (\<lambda>apiSpec. CalledCreateService (service_for apiSpec)) specs\<rparr>)"
    using create_services_append [OF ok, of None "[]" "[]"] assms(9) by simp
  have written: "SetConfigstate env pDevice
      (db (w1\<lparr>db := db_after (db w1) outs,
             calls := calls w1 @ map (\<lambda>apiSpec. CalledCreateService (service_for apiSpec)) specs\<rparr>))
      (Id_p pDevice) ''configured'' = ((Some updatedDev, None), d')"
    using assms(11) by simp
  show ?thesis
    using assms(4)
    by (simp add: UpdateConfigstate_configure [OF assms(1-3)] block loop
        persist_state_ok [OF written])
qed

theorem UpdateConfigstate_already_present_continues_witness:
  "UpdateConfigstate node_env (node_request ''configured'')
     (node_world ''pat'' ''configuring'' [''example.com-ms-x_myorg_1.0.0'']) =
     (Return (False, Some \<lparr>State = Some ''configured''\<rparr>, [''example.com-ms-y_myorg_1.0.0'']),
      \<lparr>db = (Some (node_device ''pat'' ''configured''),
             [''example.com-ms-x_myorg_1.0.0'', ''example.com-ms-y_myorg_1.0.0'']),
       calls =
         [CalledFindExchangeDevice,
          CalledGetPatterns ''myorg'' ''pat'' ''myorg/node1'' ''tok'',
          CalledResolveWorkload ''http://example.com/wl/b'' ''myorg'' ''1.0.0'' ''amd64''
            ''myorg/node1'' ''tok'',
          CalledResolveWorkload ''http://example.com/wl/b'' ''myorg'' ''2.0.0'' ''amd64''
            ''myorg/node1'' ''tok'',
          CalledCreateService (service_for (node_api_spec ''http://example.com/ms/x'')),
          CalledCreateService (service_for (node_api_spec ''http://example.com/ms/y'')),
          CalledSetConfigstate ''node1'' ''configured'']\<rparr>)"
proof -
  let ?w = "node_world ''pat'' ''configuring'' [''example.com-ms-x_myorg_1.0.0'']"
  let ?dev = "node_device ''pat'' ''configuring''"
  let ?specs = "[node_api_spec ''http://example.com/ms/x'', node_api_spec ''http://example.com/ms/y'']"
  let ?w1 = "?w\<lparr>calls :=
         [CalledFindExchangeDevice,
          CalledGetPatterns ''myorg'' ''pat'' ''myorg/node1'' ''tok'',
          CalledResolveWorkload ''http://example.com/wl/b'' ''myorg'' ''1.0.0'' ''amd64''
            ''myorg/node1'' ''tok'',
          CalledResolveWorkload ''http://example.com/wl/b'' ''myorg'' ''2.0.0'' ''amd64''
            ''myorg/node1'' ''tok'']\<rparr>"
  let ?outs = "create_outcomes node_env ?specs None (db ?w1)"
  let ?d' = "(Some (node_device ''pat'' ''configured''),
             [''example.com-ms-x_myorg_1.0.0'', ''example.com-ms-y_myorg_1.0.0''])"
  have h1: "FindExchangeDevice node_env (db ?w) = (Some ?dev, None)"
    by (simp add: node_env_def node_world_def)
  have h2: "State_p (Config_p ?dev) = ''configuring''"
    by (simp add: node_device_def)
  have h3: "State (node_request ''configured'') = Some ''configured''"
    by (simp add: node_request_def)
  have h4: "Pattern ?dev \<noteq> ''''"
    by (simp add: node_device_def)
  have h5: "getPatterns node_env (Org ?dev) (Pattern ?dev) (GetId node_env ?dev) (Token ?dev) =
      (node_patterns ''pat'', None)"
    by (simp add: node_env_def node_device_def)
  have h6: "Mapping.size (node_patterns ''pat'') = 1"
    by code_simp
  have h7: "Mapping.lookup (node_patterns ''pat'') (Org ?dev @ ''/'' @ Pattern ?dev) =
      Some \<lparr>Workloads = [node_workload ''http://example.com/wl/a'' ''arm'' [''1.0.0''],
                           node_workload ''http://example.com/wl/b'' ''amd64'' [''1.0.0'', ''2.0.0'']]\<rparr>"
    by code_simp
  have h8: "resolve_workloads node_env ?dev (ArchString node_env)
      (Workloads \<lparr>Workloads = [node_workload ''http://example.com/wl/a'' ''arm'' [''1.0.0''],
                           node_workload ''http://example.com/wl/b'' ''amd64'' [''1.0.0'', ''2.0.0'']]\<rparr>) []
      (?w\<lparr>calls := calls ?w @ [CalledFindExchangeDevice,
           CalledGetPatterns (Org ?dev) (Pattern ?dev) (GetId node_env ?dev) (Token ?dev)]\<rparr>) =
      Inr (?specs, ?w1)"
    by code_simp
  have h10: "\<forall>out \<in> set ?outs. created out \<or> already_present out"
    by code_simp
  have h11: "SetConfigstate node_env ?dev (db_after (db ?w1) ?outs) (Id_p ?dev) ''configured'' =
      ((Some (node_device ''pat'' ''configured''), None), ?d')"
    by code_simp
  note c = UpdateConfigstate_already_present_continues [OF h1 h2 h3 h4 h5 h6 h7 h8 refl h10 h11]
  have e: "(Return (False, Some \<lparr>State = Some (State_p (Config_p (node_device ''pat'' ''configured'')))\<rparr>,
              map notification (filter created ?outs)),
      ?w1\<lparr>db := ?d',
         calls := calls ?w1 @ map (\<lambda>apiSpec. CalledCreateService (service_for apiSpec)) ?specs @
                  [CalledSetConfigstate (Id_p ?dev) ''configured'']\<rparr>) =
     (Return (False, Some \<lparr>State = Some ''configured''\<rparr>, [''example.com-ms-y_myorg_1.0.0'']),
      \<lparr>db = ?d',
       calls =
         [CalledFindExchangeDevice,
          CalledGetPatterns ''myorg'' ''pat'' ''myorg/node1'' ''tok'',
          CalledResolveWorkload ''http://example.com/wl/b'' ''myorg'' ''1.0.0'' ''amd64''
            ''myorg/node1'' ''tok'',
          CalledResolveWorkload ''http://example.com/wl/b'' ''myorg'' ''2.0.0'' ''amd64''
            ''myorg/node1'' ''tok'',
          CalledCreateService (service_for (node_api_spec ''http://example.com/ms/x'')),
          CalledCreateService (service_for (node_api_spec ''http://example.com/ms/y'')),
          CalledSetConfigstate ''node1'' ''configured'']\<rparr>)"
    by code_simp
  from c e show ?thesis by (rule trans)
qed

text \<open>
  C1. The claim: when the provisioner reports that a dependency needs manual
  configuration, the caller receives an invalid-input fault naming it. On the run
  below (the pattern resolves to one dependency, which needs manual configuration)
  \<open>UpdateConfigstate\<close> panics instead: the error handler is never called, so no
  fault reaches the caller; the database is as it was, so the state stays
  "configuring".
\<close>

theorem UpdateConfigstate_missing_config_scenario:
  "UpdateConfigstate node_env (node_request ''configured'') (node_world ''patz'' ''configuring'' []) =
     (Panic,
      (node_world ''patz'' ''configuring'' [])\<lparr>calls :=
         [CalledFindExchangeDevice,
          CalledGetPatterns ''myorg'' ''patz'' ''myorg/node1'' ''tok'',
          CalledResolveWorkload ''http://example.com/wl/d'' ''myorg'' ''1.0.0'' ''amd64''
            ''myorg/node1'' ''tok'',
          CalledCreateService (service_for (node_api_spec ''http://example.com/ms/z''))]\<rparr>)"
  by code_simp

text \<open>
  C10. The claim: \<open>UpdateConfigstate\<close> never panics, the type assertion of the
  needs-manual-configuration branch being applied to a non-nil
  \<open>*MSMissingVariableConfigError\<close>. The code asserts on \<open>err\<close>, which is nil there:
  whenever the resolved list reaches, after answers "created" or "already present", an
  API spec for which the provisioner reports \<open>MSMissingVariableConfigError\<close>,
  \<open>UpdateConfigstate\<close> panics, with no call to the error handler and no state written.
\<close>

theorem UpdateConfigstate_missing_config_panics:
  assumes "FindExchangeDevice env (db w) = (Some pDevice, None)"
    and "State_p (Config_p pDevice) = ''configuring''"
    and "State cfg = Some ''configured''"
    and "Pattern pDevice \<noteq> ''''"
    and "getPatterns env (Org pDevice) (Pattern pDevice) (GetId env pDevice) (Token pDevice) =
           (pattern, None)"
    and "Mapping.size pattern = 1"
    and "Mapping.lookup pattern (Org pDevice @ ''/'' @ Pattern pDevice) = Some patternDef"
    and "resolve_workloads env pDevice (ArchString env) (Workloads patternDef) []
           (w\<lparr>calls := calls w @ [CalledFindExchangeDevice,
                 CalledGetPatterns (Org pDevice) (Pattern pDevice) (GetId env pDevice)
                   (Token pDevice)]\<rparr>)
         = Inr (pre @ apiSpec # post, w1)"
    and "outs = create_outcomes env pre None (db w1)"
    and "\<forall>out \<in> set outs. created out \<or> already_present out"
    and "needs_manual_config
           (CreateService env (service_for apiSpec) (error_after None outs)
              (db_after (db w1) outs))"
  shows "UpdateConfigstate env cfg w =
     (Panic,
      w1\<lparr>db := snd (snd (CreateService env (service_for apiSpec) (error_after None outs)
                            (db_after (db w1) outs))),
         calls := calls w1 @
                  map (\<lambda>apiSpec. CalledCreateService (service_for apiSpec)) (pre @ [apiSpec])\<rparr>)"
proof -
  let ?w0 = "record_call CalledFindExchangeDevice w"
  let ?w2 = "w1\<lparr>db := db_after (db w1) outs,
             calls := calls w1 @ map (\<lambda>apiSpec. CalledCreateService (service_for apiSpec)) pre\<rparr>"
  have res: "resolve_workloads env pDevice (ArchString env) (Workloads patternDef) []
           (?w0\<lparr>calls := calls ?w0 @ [CalledGetPatterns (Org pDevice) (Pattern pDevice)
                 (GetId env pDevice) (Token pDevice)]\<rparr>) = Inr (pre @ apiSpec # post, w1)"
    using assms(8) by (simp add: record_call_def)
  have block: "autoconfig env pDevice [] ?w0 =
      create_services env None (pre @ apiSpec # post) None [] w1"
    by (rule autoconfig_resolved [OF assms(5,6,7) res])
  have ok: "\<forall>out \<in> set (create_outcomes env pre None (db w1)).
      created out \<or> already_present out"
    using assms(9,10) by simp
  have loop: "create_services env None (pre @ apiSpec # post) None [] w1 =
     create_services env None (apiSpec # post) (error_after None outs)
       (map notification (filter created outs)) ?w2"
    using create_services_append [OF ok, of None "apiSpec # post" "[]"] assms(9) by simp
  have miss: "needs_manual_config
           (CreateService env (service_for apiSpec) (error_after None outs) (db ?w2))"
    using assms(11) by simp
  show ?thesis
    using assms(4)
    by (simp add: UpdateConfigstate_configure [OF assms(1-3)] block loop
        create_services_needs_config [OF miss] del: create_services.simps)
qed

theorem UpdateConfigstate_missing_config_panics_witness:
  "needs_manual_config
     (CreateService node_env (service_for (node_api_spec ''http://example.com/ms/z''))
        (Some (DuplicateServiceError ''already present''))
        (Some (node_device ''patxz'' ''configuring''), [''example.com-ms-x_myorg_1.0.0''])) \<and>
   UpdateConfigstate node_env (node_request ''configured'')
     (node_world ''patxz'' ''configuring'' [''example.com-ms-x_myorg_1.0.0'']) =
     (Panic,
      (node_world ''patxz'' ''configuring'' [''example.com-ms-x_myorg_1.0.0''])\<lparr>calls :=
         [CalledFindExchangeDevice,
          CalledGetPatterns ''myorg'' ''patxz'' ''myorg/node1'' ''tok'',
          CalledResolveWorkload ''http://example.com/wl/e'' ''myorg'' ''1.0.0'' ''amd64''
            ''myorg/node1'' ''tok'',
          CalledCreateService (service_for (node_api_spec ''http://example.com/ms/x'')),
          CalledCreateService (service_for (node_api_spec ''http://example.com/ms/z''))]\<rparr>)"
proof -
  let ?w = "node_world ''patxz'' ''configuring'' [''example.com-ms-x_myorg_1.0.0'']"
  let ?dev = "node_device ''patxz'' ''configuring''"
  let ?x = "node_api_spec ''http://example.com/ms/x''"
  let ?z = "node_api_spec ''http://example.com/ms/z''"
  let ?w1 = "?w\<lparr>calls :=
         [CalledFindExchangeDevice,
          CalledGetPatterns ''myorg'' ''patxz'' ''myorg/node1'' ''tok'',
          CalledResolveWorkload ''http://example.com/wl/e'' ''myorg'' ''1.0.0'' ''amd64''
            ''myorg/node1'' ''tok'']\<rparr>"
  let ?outs = "create_outcomes node_env [?x] None (db ?w1)"
  have h1: "FindExchangeDevice node_env (db ?w) = (Some ?dev, None)"
    by (simp add: node_env_def node_world_def)
  have h2: "State_p (Config_p ?dev) = ''configuring''"
    by (simp add: node_device_def)
  have h3: "State (node_request ''configured'') = Some ''configured''"
    by (simp add: node_request_def)
  have h4: "Pattern ?dev \<noteq> ''''"
    by (simp add: node_device_def)
  have h5: "getPatterns node_env (Org ?dev) (Pattern ?dev) (GetId node_env ?dev) (Token ?dev) =
      (node_patterns ''patxz'', None)"
    by (simp add: node_env_def node_device_def)
  have h6: "Mapping.size (node_patterns ''patxz'') = 1"
    by code_simp
  have h7: "Mapping.lookup (node_patterns ''patxz'') (Org ?dev @ ''/'' @ Pattern ?dev) =
      Some \<lparr>Workloads = [node_workload ''http://example.com/wl/e'' ''amd64'' [''1.0.0'']]\<rparr>"
    by code_simp
  have h8: "resolve_workloads node_env ?dev (ArchString node_env)
      (Workloads \<lparr>Workloads = [node_workload ''http://example.com/wl/e'' ''amd64'' [''1.0.0'']]\<rparr>) []
      (?w\<lparr>calls := calls ?w @ [CalledFindExchangeDevice,
           CalledGetPatterns (Org ?dev) (Pattern ?dev) (GetId node_env ?dev) (Token ?dev)]\<rparr>) =
      Inr ([?x] @ ?z # [], ?w1)"
    by code_simp
  have h10: "\<forall>out \<in> set ?outs. created out \<or> already_present out"
    by code_simp
  have h11: "needs_manual_config
      (CreateService node_env (service_for ?z) (error_after None ?outs) (db_after (db ?w1) ?outs))"
    by code_simp
  note c = UpdateConfigstate_missing_config_panics [OF h1 h2 h3 h4 h5 h6 h7 h8 refl h10 h11]
  have e: "(Panic,
      ?w1\<lparr>db := snd (snd (CreateService node_env (service_for ?z) (error_after None ?outs)
                            (db_after (db ?w1) ?outs))),
         calls := calls ?w1 @
                  map (\<lambda>apiSpec. CalledCreateService (service_for apiSpec)) ([?x] @ [?z])\<rparr>) =
     ((Panic,
      ?w\<lparr>calls :=
         [CalledFindExchangeDevice,
          CalledGetPatterns ''myorg'' ''patxz'' ''myorg/node1'' ''tok'',
          CalledResolveWorkload ''http://example.com/wl/e'' ''myorg'' ''1.0.0'' ''amd64''
            ''myorg/node1'' ''tok'',
          CalledCreateService (service_for ?x),
          CalledCreateService (service_for ?z)]\<rparr>) :: (node_db, string) update_result)"
    by code_simp
  have m: "needs_manual_config
     (CreateService node_env (service_for ?z)
        (Some (DuplicateServiceError ''already present''))
        (Some ?dev, [''example.com-ms-x_myorg_1.0.0'']))"
    by code_simp
  from c e have "UpdateConfigstate node_env (node_request ''configured'') ?w =
     (Panic,
      ?w\<lparr>calls :=
         [CalledFindExchangeDevice,
          CalledGetPatterns ''myorg'' ''patxz'' ''myorg/node1'' ''tok'',
          CalledResolveWorkload ''http://example.com/wl/e'' ''myorg'' ''1.0.0'' ''amd64''
            ''myorg/node1'' ''tok'',
          CalledCreateService (service_for ?x),
          CalledCreateService (service_for ?z)]\<rparr>)"
    by (rule trans)
  with m show ?thesis by (rule conjI)
qed

end
